theory Spec2Isabelle
  imports Main "HOL-Library.Word" "HOL-Library.Char_ord" "HOL-Library.List_Lexorder"
begin

unbundle bit_operations_syntax

section \<open>Values\<close>

text \<open>
  The evaluator of \<^verbatim>\<open>parser.go\<close> computes with Go values of the empty interface type.
  A value is modelled by its dynamic type and its payload: one constructor for each type
  that \<^verbatim>\<open>castToInternal\<close>, \<^verbatim>\<open>castToExternal\<close> or \<^verbatim>\<open>Compare.Eval\<close> tell apart, \<open>V_nil\<close> for
  the nil interface, and \<open>V_other\<close> for a value of any other dynamic type. The types
  \<^verbatim>\<open>int\<close> and \<^verbatim>\<open>uint\<close> are taken at 64 bits. \<open>V_Boolean\<close> is the package's own type
  \<^verbatim>\<open>Boolean\<close>, \<open>V_bool\<close> the predeclared \<^verbatim>\<open>bool\<close>. A string is its sequence of bytes.
\<close>

type_synonym float64 = "64 word"
type_synonym float32 = "32 word"

datatype 'o val =
    V_nil
  | V_bool bool
  | V_int "64 word"
  | V_int8 "8 word"
  | V_int16 "16 word"
  | V_int32 "32 word"
  | V_int64 "64 word"
  | V_uint "64 word"
  | V_uint8 "8 word"
  | V_uint16 "16 word"
  | V_uint32 "32 word"
  | V_uint64 "64 word"
  | V_float32 float32
  | V_float64 float64
  | V_string string
  | V_Boolean bool
  | V_other 'o

subsection \<open>Double precision numbers\<close>

text \<open>
  A \<^verbatim>\<open>float64\<close> is its IEEE 754 bit pattern: bit 63 is the sign, bits 52 to 62 the biased
  exponent, bits 0 to 51 the fraction. \<open>f64_magnitude\<close> is the absolute value in units of
  \<open>2 ^ -1074\<close> (the smallest subnormal), so that the order of two patterns that are not
  NaN is the order of two integers; an infinity gets \<open>2 ^ 2098\<close>, above every finite value.
\<close>

definition f64_sign :: "float64 \<Rightarrow> bool" where
  "f64_sign w = bit w 63"

definition f64_exponent :: "float64 \<Rightarrow> nat" where
  "f64_exponent w = unat (drop_bit 52 w) mod 2048"

definition f64_fraction :: "float64 \<Rightarrow> nat" where
  "f64_fraction w = unat w mod 2 ^ 52"

definition f64_isNaN :: "float64 \<Rightarrow> bool" where
  "f64_isNaN w = (f64_exponent w = 2047 \<and> f64_fraction w \<noteq> 0)"

definition f64_magnitude :: "float64 \<Rightarrow> nat" where
  "f64_magnitude w =
     (if f64_exponent w = 0 then f64_fraction w
      else (2 ^ 52 + f64_fraction w) * 2 ^ (f64_exponent w - 1))"

definition f64_order :: "float64 \<Rightarrow> int" where
  "f64_order w = (if f64_sign w then - int (f64_magnitude w) else int (f64_magnitude w))"

text \<open>The six comparison operators of Go on \<^verbatim>\<open>float64\<close> operands.\<close>

definition f64_eq :: "float64 \<Rightarrow> float64 \<Rightarrow> bool" where
  "f64_eq a b = (\<not> f64_isNaN a \<and> \<not> f64_isNaN b \<and> f64_order a = f64_order b)"

definition f64_ne :: "float64 \<Rightarrow> float64 \<Rightarrow> bool" where
  "f64_ne a b = (\<not> f64_eq a b)"

definition f64_lt :: "float64 \<Rightarrow> float64 \<Rightarrow> bool" where
  "f64_lt a b = (\<not> f64_isNaN a \<and> \<not> f64_isNaN b \<and> f64_order a < f64_order b)"

definition f64_gt :: "float64 \<Rightarrow> float64 \<Rightarrow> bool" where
  "f64_gt a b = f64_lt b a"

definition f64_le :: "float64 \<Rightarrow> float64 \<Rightarrow> bool" where
  "f64_le a b = (\<not> f64_isNaN a \<and> \<not> f64_isNaN b \<and> f64_order a \<le> f64_order b)"

definition f64_ge :: "float64 \<Rightarrow> float64 \<Rightarrow> bool" where
  "f64_ge a b = f64_le b a"

text \<open>
  The conversion \<^verbatim>\<open>float64(n)\<close> of an integer: exact when \<open>n\<close> has at most 53 significant
  bits, rounded to nearest, ties to even, otherwise. \<open>bit_length n\<close> is the number of
  significant bits of \<open>n\<close>. A carry out of the 53 bits lands in the exponent field, as the
  encoding is monotone.
\<close>

fun bit_length :: "nat \<Rightarrow> nat" where
  "bit_length n = (if n = 0 then 0 else Suc (bit_length (n div 2)))"

declare bit_length.simps [simp del]

definition round_half_even :: "nat \<Rightarrow> nat \<Rightarrow> nat" where
  "round_half_even m d =
     (let q = m div d; r = m mod d
      in if 2 * r > d \<or> (2 * r = d \<and> odd q) then q + 1 else q)"

definition f64_encode_nat :: "nat \<Rightarrow> nat" where
  "f64_encode_nat m =
     (if m = 0 then 0
      else let k = bit_length m - 1
           in if k \<le> 52 then (1023 + k) * 2 ^ 52 + (m * 2 ^ (52 - k) - 2 ^ 52)
              else (1023 + k) * 2 ^ 52 + (round_half_even m (2 ^ (k - 52)) - 2 ^ 52))"

definition float64_of_int :: "int \<Rightarrow> float64" where
  "float64_of_int n =
     (if n < 0 then of_nat (2 ^ 63 + f64_encode_nat (nat (- n)))
      else of_nat (f64_encode_nat (nat n)))"

text \<open>
  The conversion \<^verbatim>\<open>float64(x)\<close> of a \<^verbatim>\<open>float32\<close> (sign bit 31, exponent bits 23 to 30,
  fraction bits 0 to 22) is exact: a subnormal is normalised, an infinity stays one, and a
  NaN keeps its payload with the quiet bit set.
\<close>

definition float64_of_float32 :: "float32 \<Rightarrow> float64" where
  "float64_of_float32 x =
     (let s = (if bit x 31 then 2 ^ 63 else 0 :: nat);
          e = unat (drop_bit 23 x) mod 256;
          f = unat x mod 2 ^ 23
      in of_nat
           (if e = 255 then s + 2047 * 2 ^ 52 + (if f = 0 then 0 else 2 ^ 51 + (f * 2 ^ 29) mod 2 ^ 51)
            else if e = 0 then
              (if f = 0 then s
               else let k = bit_length f - 1
                    in s + (k + 874) * 2 ^ 52 + (f * 2 ^ (52 - k) - 2 ^ 52))
            else s + (e + 896) * 2 ^ 52 + f * 2 ^ 29))"

subsection \<open>Strings\<close>

text \<open>
  Go compares two strings byte by byte, as unsigned bytes, and a proper prefix is less.
\<close>

fun string_lt :: "string \<Rightarrow> string \<Rightarrow> bool" where
  "string_lt [] [] = False"
| "string_lt [] (y # ys) = True"
| "string_lt (x # xs) [] = False"
| "string_lt (x # xs) (y # ys) =
     (if of_char x < (of_char y :: nat) then True
      else if of_char x > (of_char y :: nat) then False
      else string_lt xs ys)"

definition string_gt :: "string \<Rightarrow> string \<Rightarrow> bool" where
  "string_gt a b = string_lt b a"

definition string_le :: "string \<Rightarrow> string \<Rightarrow> bool" where
  "string_le a b = (\<not> string_lt b a)"

definition string_ge :: "string \<Rightarrow> string \<Rightarrow> bool" where
  "string_ge a b = (\<not> string_lt a b)"

subsection \<open>Coercions\<close>

text \<open>\<^verbatim>\<open>castToInternal\<close>: the type switch, in the order of the source.\<close>

fun castToInternal :: "'o val \<Rightarrow> 'o val" where
  "castToInternal (V_bool v) = V_Boolean v"
| "castToInternal (V_int v) = V_float64 (float64_of_int (sint v))"
| "castToInternal (V_int8 v) = V_float64 (float64_of_int (sint v))"
| "castToInternal (V_int16 v) = V_float64 (float64_of_int (sint v))"
| "castToInternal (V_int32 v) = V_float64 (float64_of_int (sint v))"
| "castToInternal (V_int64 v) = V_float64 (float64_of_int (sint v))"
| "castToInternal (V_uint v) = V_float64 (float64_of_int (uint v))"
| "castToInternal (V_uint8 v) = V_float64 (float64_of_int (uint v))"
| "castToInternal (V_uint16 v) = V_float64 (float64_of_int (uint v))"
| "castToInternal (V_uint32 v) = V_float64 (float64_of_int (uint v))"
| "castToInternal (V_uint64 v) = V_float64 (float64_of_int (uint v))"
| "castToInternal (V_float32 v) = V_float64 (float64_of_float32 v)"
| "castToInternal v = v"

text \<open>\<^verbatim>\<open>castToExternal\<close>.\<close>

fun castToExternal :: "'o val \<Rightarrow> 'o val" where
  "castToExternal (V_Boolean v) = V_bool v"
| "castToExternal v = v"

section \<open>Errors and outcomes\<close>

text \<open>
  A \<^verbatim>\<open>lexer.Position\<close> is kept as its byte offset in the text (line and column are
  functions of the offset and the text).

  An error is the call that built it: \<^verbatim>\<open>fmt.Errorf\<close> with its message,
  \<^verbatim>\<open>lexer.Errorf\<close> with its position, its format string and its arguments, unformatted.
  \<open>Host\<close> is an error value returned by the host's \<^verbatim>\<open>GetByName\<close>, \<open>ParseError\<close> an error
  of \<^verbatim>\<open>Parser.ParseString\<close>. The argument \<open>Arg_string_pointer\<close> is a \<^verbatim>\<open>*string\<close>: the verb
  \<^verbatim>\<open>%v\<close> prints the address held by such a pointer, not the string it points to.
\<close>

type_synonym Position = nat

datatype 'e error =
    Host 'e
  | fmt_Errorf string
  | lexer_Errorf Position string "'e fmtarg list"
  | ParseError
and 'e fmtarg =
    Arg_string string
  | Arg_error "'e error"
  | Arg_string_pointer

text \<open>
  A call of an \<^verbatim>\<open>Eval\<close> method returns a value and a nil error (\<open>Return\<close>), or a non-nil
  error (\<open>Fail\<close>), or panics (\<open>Panic\<close>). No function of the package recovers from a panic.
\<close>

datatype ('e, 'a) outcome =
    Return 'a
  | Fail "'e error"
  | Panic string

section \<open>Syntax trees\<close>

text \<open>
  The node structs. A pointer field that the code tests against nil is an \<open>option\<close>;
  the other node pointers (the elements of \<^verbatim>\<open>Or\<close> and \<^verbatim>\<open>And\<close>, the \<^verbatim>\<open>Term\<close> of an operand and of
  a comparison) are never nil in a tree built by the parser, and are taken as the nodes
  themselves.
\<close>

datatype Value = Value Position "float64 option" "string option" "bool option"

datatype Expression = Expression Position "OrCondition list"
and OrCondition = OrCondition Position "ConditionOperand list"
and ConditionOperand = ConditionOperand Position Term "Compare option"
and Compare = Compare Position string Term
and Term = Term Position "Value option" "string option" "Expression option"

section \<open>The evaluation context\<close>

text \<open>
  \<^verbatim>\<open>Gettable\<close> is implemented by the host. \<^verbatim>\<open>GetByName\<close> may read and change state of the
  host's, so a call takes the state \<open>'s\<close> and returns the new one, with either an error
  (\<open>Inl\<close>) or a value. \<^verbatim>\<open>Context.Object\<close> is \<open>None\<close> when the interface is nil.
\<close>

type_synonym ('s, 'e, 'o) Gettable = "string \<Rightarrow> 's \<Rightarrow> ('e + 'o val) \<times> 's"

record ('s, 'e, 'o) Context =
  Object :: "('s, 'e, 'o) Gettable option"

section \<open>Evaluation\<close>

text \<open>
  \<^verbatim>\<open>evaluateBooleans\<close>. Its first statement evaluates \<^verbatim>\<open>rhsExpr\<close>; the outcome of that call,
  with the state it leaves, is the second argument here.
\<close>

fun evaluateBooleans ::
  "'o val \<Rightarrow> ('e, 'o val) outcome \<times> 's \<Rightarrow> ('e, bool \<times> bool) outcome \<times> 's" where
  "evaluateBooleans lhs (Panic m, s) = (Panic m, s)"
| "evaluateBooleans lhs (Fail err, s) = (Fail err, s)"
| "evaluateBooleans lhs (Return rhs, s) =
     (case lhs of
        V_Boolean lhsBool \<Rightarrow>
          (case rhs of
             V_Boolean rhsBool \<Rightarrow> (Return (lhsBool, rhsBool), s)
           | _ \<Rightarrow> (Fail (fmt_Errorf ''rhs must be boolean''), s))
      | _ \<Rightarrow> (Fail (fmt_Errorf ''lhs must be boolean''), s))"

text \<open>\<^verbatim>\<open>Value.Eval\<close>.\<close>

fun Value_Eval :: "Value \<Rightarrow> ('e, 'o val) outcome" where
  "Value_Eval (Value pos number str boolean) =
     (case number of
        Some n \<Rightarrow> Return (V_float64 n)
      | None \<Rightarrow>
          (case str of
             Some t \<Rightarrow> Return (V_string t)
           | None \<Rightarrow>
               (case boolean of
                  Some b \<Rightarrow> Return (V_Boolean b)
                | None \<Rightarrow> Panic ''unsupported value type'')))"

text \<open>
  The type switch of \<^verbatim>\<open>Compare.Eval\<close>, after the right operand has been evaluated: \<open>pos\<close>
  and \<open>op\<close> are the fields \<^verbatim>\<open>Pos\<close> and \<^verbatim>\<open>Operator\<close> of the node.
\<close>

definition Compare_switch :: "Position \<Rightarrow> string \<Rightarrow> 'o val \<Rightarrow> 'o val \<Rightarrow> ('e, 'o val) outcome" where
  "Compare_switch pos op lhs rhs =
     (case lhs of
        V_float64 l \<Rightarrow>
          (case rhs of
             V_float64 r \<Rightarrow>
               (if op = ''=='' then Return (V_Boolean (f64_eq l r))
                else if op = ''!='' then Return (V_Boolean (f64_ne l r))
                else if op = ''<'' then Return (V_Boolean (f64_lt l r))
                else if op = ''>'' then Return (V_Boolean (f64_gt l r))
                else if op = ''<='' then Return (V_Boolean (f64_le l r))
                else if op = ''>='' then Return (V_Boolean (f64_ge l r))
                else Fail (lexer_Errorf pos ''unsupported number comparison operator %s''
                             [Arg_string op]))
           | _ \<Rightarrow> Fail (lexer_Errorf pos ''rhs of %s must be a number'' [Arg_string op]))
      | V_string l \<Rightarrow>
          (case rhs of
             V_string r \<Rightarrow>
               (if op = ''=='' then Return (V_Boolean (l = r))
                else if op = ''!='' then Return (V_Boolean (l \<noteq> r))
                else if op = ''<'' then Return (V_Boolean (string_lt l r))
                else if op = ''>'' then Return (V_Boolean (string_gt l r))
                else if op = ''<='' then Return (V_Boolean (string_le l r))
                else if op = ''>='' then Return (V_Boolean (string_ge l r))
                else Fail (lexer_Errorf pos ''unsupported string comparison operator %s''
                             [Arg_string op]))
           | _ \<Rightarrow> Fail (lexer_Errorf pos ''rhs of %s must be a string'' [Arg_string op]))
      | V_Boolean l \<Rightarrow>
          (case rhs of
             V_Boolean r \<Rightarrow>
               (if op = ''=='' then Return (V_Boolean (l = r))
                else if op = ''!='' then Return (V_Boolean (l \<noteq> r))
                else Fail (lexer_Errorf pos ''unsupported boolean comparison operator %s''
                             [Arg_string op]))
           | _ \<Rightarrow> Fail (lexer_Errorf pos ''rhs of %s must be boolean'' [Arg_string op]))
      | _ \<Rightarrow> Fail (lexer_Errorf pos ''lhs of %s must be a number, string or boolean''
                    [Arg_string op]))"

text \<open>
  The \<^verbatim>\<open>Eval\<close> methods of the nodes. \<open>Expression_loop\<close> and \<open>OrCondition_loop\<close> are the
  \<^verbatim>\<open>for\<close> loops over \<^verbatim>\<open>e.Or[1:]\<close> and \<^verbatim>\<open>o.And[1:]\<close>, with the running \<^verbatim>\<open>lhs\<close> and the children
  still to come.
\<close>

fun Expression_Eval ::
    "('s, 'e, 'o) Context \<Rightarrow> Expression \<Rightarrow> 's \<Rightarrow> ('e, 'o val) outcome \<times> 's"
  and Expression_loop ::
    "('s, 'e, 'o) Context \<Rightarrow> Position \<Rightarrow> 'o val \<Rightarrow> OrCondition list \<Rightarrow> 's
      \<Rightarrow> ('e, 'o val) outcome \<times> 's"
  and OrCondition_Eval ::
    "('s, 'e, 'o) Context \<Rightarrow> OrCondition \<Rightarrow> 's \<Rightarrow> ('e, 'o val) outcome \<times> 's"
  and OrCondition_loop ::
    "('s, 'e, 'o) Context \<Rightarrow> Position \<Rightarrow> 'o val \<Rightarrow> ConditionOperand list \<Rightarrow> 's
      \<Rightarrow> ('e, 'o val) outcome \<times> 's"
  and ConditionOperand_Eval ::
    "('s, 'e, 'o) Context \<Rightarrow> ConditionOperand \<Rightarrow> 's \<Rightarrow> ('e, 'o val) outcome \<times> 's"
  and Compare_Eval ::
    "('s, 'e, 'o) Context \<Rightarrow> Compare \<Rightarrow> 'o val \<Rightarrow> 's \<Rightarrow> ('e, 'o val) outcome \<times> 's"
  and Term_Eval ::
    "('s, 'e, 'o) Context \<Rightarrow> Term \<Rightarrow> 's \<Rightarrow> ('e, 'o val) outcome \<times> 's"
where
  "Expression_Eval ctx (Expression pos []) s = (Return V_nil, s)"
| "Expression_Eval ctx (Expression pos (or0 # ors)) s =
     (case OrCondition_Eval ctx or0 s of
        (Panic m, s1) \<Rightarrow> (Panic m, s1)
      | (Fail err, s1) \<Rightarrow> (Fail err, s1)
      | (Return lhs, s1) \<Rightarrow>
          if length (or0 # ors) = 1 then (Return lhs, s1)
          else if length (or0 # ors) = 2 \<and> lhs = V_Boolean True then (Return lhs, s1)
          else Expression_loop ctx pos lhs ors s1)"
| "Expression_loop ctx pos lhs [] s = (Return lhs, s)"
| "Expression_loop ctx pos lhs (or1 # ors) s =
     (case evaluateBooleans lhs (OrCondition_Eval ctx or1 s) of
        (Panic m, s1) \<Rightarrow> (Panic m, s1)
      | (Fail err, s1) \<Rightarrow> (Fail (lexer_Errorf pos ''%v'' [Arg_error err]), s1)
      | (Return (lhsBool, rhsBool), s1) \<Rightarrow>
          if lhsBool then (Return lhs, s1)
          else Expression_loop ctx pos (V_Boolean (lhsBool \<or> rhsBool)) ors s1)"
| "OrCondition_Eval ctx (OrCondition pos []) s = (Return V_nil, s)"
| "OrCondition_Eval ctx (OrCondition pos (and0 # ands)) s =
     (case ConditionOperand_Eval ctx and0 s of
        (Panic m, s1) \<Rightarrow> (Panic m, s1)
      | (Fail err, s1) \<Rightarrow> (Fail err, s1)
      | (Return lhs, s1) \<Rightarrow>
          if length (and0 # ands) = 1 then (Return lhs, s1)
          else if length (and0 # ands) = 2 \<and> lhs = V_Boolean False then (Return lhs, s1)
          else OrCondition_loop ctx pos lhs ands s1)"
| "OrCondition_loop ctx pos lhs [] s = (Return lhs, s)"
| "OrCondition_loop ctx pos lhs (and1 # ands) s =
     (case evaluateBooleans lhs (ConditionOperand_Eval ctx and1 s) of
        (Panic m, s1) \<Rightarrow> (Panic m, s1)
      | (Fail err, s1) \<Rightarrow> (Fail (lexer_Errorf pos ''%v'' [Arg_error err]), s1)
      | (Return (lhsBool, rhsBool), s1) \<Rightarrow>
          if \<not> lhsBool then (Return lhs, s1)
          else OrCondition_loop ctx pos (V_Boolean (lhsBool \<and> rhsBool)) ands s1)"
| "ConditionOperand_Eval ctx (ConditionOperand pos term compare) s =
     (case Term_Eval ctx term s of
        (Panic m, s1) \<Rightarrow> (Panic m, s1)
      | (Fail err, s1) \<Rightarrow> (Fail err, s1)
      | (Return lhs, s1) \<Rightarrow>
          (case compare of
             None \<Rightarrow> (Return lhs, s1)
           | Some c \<Rightarrow> Compare_Eval ctx c lhs s1))"
| "Compare_Eval ctx (Compare pos op term) lhs s =
     (case Term_Eval ctx term s of
        (Panic m, s1) \<Rightarrow> (Panic m, s1)
      | (Fail err, s1) \<Rightarrow> (Fail err, s1)
      | (Return rhs, s1) \<Rightarrow> (Compare_switch pos op lhs rhs, s1))"
| "Term_Eval ctx (Term pos val identifier subExpression) s =
     (case val of
        Some v \<Rightarrow> (Value_Eval v, s)
      | None \<Rightarrow>
          (case identifier of
             Some name \<Rightarrow>
               (case Object ctx of
                  None \<Rightarrow>
                    (Fail (lexer_Errorf pos ''Identifier %v on nil object'' [Arg_string_pointer]), s)
                | Some obj \<Rightarrow>
                    (case obj name s of
                       (Inl err, s1) \<Rightarrow> (Fail (lexer_Errorf pos ''%v'' [Arg_error (Host err)]), s1)
                     | (Inr v, s1) \<Rightarrow> (Return (castToInternal v), s1)))
           | None \<Rightarrow>
               (case subExpression of
                  Some e \<Rightarrow> Expression_Eval ctx e s
                | None \<Rightarrow> (Panic ''unsupported term type'', s))))"

text \<open>\<^verbatim>\<open>EvalParsed\<close>.\<close>

definition EvalParsed ::
  "Expression \<Rightarrow> ('s, 'e, 'o) Gettable option \<Rightarrow> 's \<Rightarrow> ('e, 'o val) outcome \<times> 's" where
  "EvalParsed expr obj s =
     (case Expression_Eval \<lparr>Object = obj\<rparr> expr s of
        (Panic m, s1) \<Rightarrow> (Panic m, s1)
      | (Fail err, s1) \<Rightarrow> (Fail err, s1)
      | (Return v, s1) \<Rightarrow> (Return (castToExternal v), s1))"

section \<open>The tokenizer\<close>

text \<open>
  \<^verbatim>\<open>myLexer\<close> is one regular expression, an alternation of groups, handed to
  \<^verbatim>\<open>lexer.Regexp\<close>. At each position the expression is matched at that position with the
  leftmost-first rule of Go's \<^verbatim>\<open>regexp\<close> package: the alternatives are tried in the order
  they are written and the first that matches gives the token, the text it matched and the
  name of its group; the unnamed first group (white space) is matched and dropped. When no
  alternative matches, tokenizing fails. Each \<open>match_\<close> function gives the length of the
  match of one group at the head of the text.
\<close>

datatype TokenType = T_LogicOp | T_Boolean | T_Ident | T_Number | T_String | T_CompareOp

datatype Token = Token TokenType string Position

fun token_Type :: "Token \<Rightarrow> TokenType" where
  "token_Type (Token ty v pos) = ty"

fun token_Value :: "Token \<Rightarrow> string" where
  "token_Value (Token ty v pos) = v"

fun token_Pos :: "Token \<Rightarrow> Position" where
  "token_Pos (Token ty v pos) = pos"

definition is_space :: "char \<Rightarrow> bool" where
  "is_space c = (c = CHR 0x09 \<or> c = CHR 0x0A \<or> c = CHR 0x0C \<or> c = CHR 0x0D \<or> c = CHR '' '')"

definition is_digit :: "char \<Rightarrow> bool" where
  "is_digit c = (48 \<le> (of_char c :: nat) \<and> (of_char c :: nat) \<le> 57)"

definition is_upper :: "char \<Rightarrow> bool" where
  "is_upper c = (65 \<le> (of_char c :: nat) \<and> (of_char c :: nat) \<le> 90)"

definition is_lower :: "char \<Rightarrow> bool" where
  "is_lower c = (97 \<le> (of_char c :: nat) \<and> (of_char c :: nat) \<le> 122)"

definition is_ident_start :: "char \<Rightarrow> bool" where
  "is_ident_start c = (is_lower c \<or> is_upper c \<or> c = CHR ''_'')"

definition is_ident_char :: "char \<Rightarrow> bool" where
  "is_ident_char c = (is_lower c \<or> is_upper c \<or> is_digit c \<or> c = CHR ''_'')"

definition is_sign :: "char \<Rightarrow> bool" where
  "is_sign c = (c = CHR ''-'' \<or> c = CHR ''+'')"

text \<open>
  \<^verbatim>\<open>strings.ToLower\<close>, on the bytes of the ASCII letters; the package applies it to the
  text of keyword and boolean tokens only, where no other upper case letter occurs.
\<close>

definition lower_char :: "char \<Rightarrow> char" where
  "lower_char c = (if is_upper c then char_of (of_char c + (32 :: nat)) else c)"

definition strings_ToLower :: "string \<Rightarrow> string" where
  "strings_ToLower s = map lower_char s"

text \<open>
  A literal under the flag \<^verbatim>\<open>(?i)\<close>: each letter matches in either case. Go folds case by
  Unicode's simple folding, under which the letter s also matches the long s, U+017F, the
  two bytes C5 BF; none of the other letters of the four keywords has a third form.
\<close>

fun match_fold :: "string \<Rightarrow> string \<Rightarrow> nat option" where
  "match_fold [] cs = Some 0"
| "match_fold (p # ps) [] = None"
| "match_fold (p # ps) (c # cs) =
     (if lower_char c = lower_char p then map_option Suc (match_fold ps cs)
      else if lower_char p = CHR ''s'' \<and> c = CHR 0xC5 \<and> take 1 cs = [CHR 0xBF]
        then map_option (\<lambda>n. n + 2) (match_fold ps (drop 1 cs))
      else None)"

definition first_of :: "nat option \<Rightarrow> nat option \<Rightarrow> nat option" where
  "first_of a b = (case a of Some n \<Rightarrow> Some n | None \<Rightarrow> b)"

text \<open>\<^verbatim>\<open>(\s+)\<close>\<close>

definition match_space :: "string \<Rightarrow> nat option" where
  "match_space cs = (let n = length (takeWhile is_space cs) in if n = 0 then None else Some n)"

text \<open>\<^verbatim>\<open>(?P<LogicOp>(?i)AND|OR)\<close>\<close>

definition match_LogicOp :: "string \<Rightarrow> nat option" where
  "match_LogicOp cs = first_of (match_fold ''AND'' cs) (match_fold ''OR'' cs)"

text \<open>\<^verbatim>\<open>(?P<Boolean>(?i)true|false)\<close>\<close>

definition match_Boolean :: "string \<Rightarrow> nat option" where
  "match_Boolean cs = first_of (match_fold ''true'' cs) (match_fold ''false'' cs)"

text \<open>\<^verbatim>\<open>(?P<Ident>[a-zA-Z_][a-zA-Z0-9_]*)\<close>\<close>

definition match_Ident :: "string \<Rightarrow> nat option" where
  "match_Ident cs =
     (case cs of
        [] \<Rightarrow> None
      | c # cs' \<Rightarrow>
          if is_ident_start c then Some (Suc (length (takeWhile is_ident_char cs'))) else None)"

text \<open>
  \<^verbatim>\<open>(?P<Number>[-+]?\d*\.?\d+([eE][-+]?\d+)?)\<close>. After the sign, the digits before the point
  are taken greedily; the point is taken when a digit follows it, and then the digits
  after it; without such a point there must be a digit before. The exponent is taken when
  it is complete.
\<close>

definition match_exponent :: "string \<Rightarrow> nat" where
  "match_exponent cs =
     (case cs of
        [] \<Rightarrow> 0
      | e # cs1 \<Rightarrow>
          if e = CHR ''e'' \<or> e = CHR ''E'' then
            (let sg = (if cs1 \<noteq> [] \<and> is_sign (hd cs1) then 1 else 0);
                 d = length (takeWhile is_digit (drop sg cs1))
             in if d = 0 then 0 else 1 + sg + d)
          else 0)"

definition match_Number :: "string \<Rightarrow> nat option" where
  "match_Number cs =
     (let sg = (if cs \<noteq> [] \<and> is_sign (hd cs) then 1 else 0);
          cs1 = drop sg cs;
          d1 = length (takeWhile is_digit cs1);
          cs2 = drop d1 cs1;
          d2 = (if cs2 \<noteq> [] \<and> hd cs2 = CHR ''.''
                then length (takeWhile is_digit (drop 1 cs2)) else 0)
      in if d2 \<noteq> 0 then Some (sg + d1 + 1 + d2 + match_exponent (drop (1 + d2) cs2))
         else if d1 \<noteq> 0 then Some (sg + d1 + match_exponent cs2)
         else None)"

text \<open>\<^verbatim>\<open>(?P<String>'[^']*'|"[^"]*")\<close>; the quotes are the bytes 27 and 22.\<close>

definition match_quoted :: "char \<Rightarrow> string \<Rightarrow> nat option" where
  "match_quoted q cs =
     (case cs of
        [] \<Rightarrow> None
      | c # cs' \<Rightarrow>
          if c = q then
            (let n = length (takeWhile (\<lambda>x. x \<noteq> q) cs')
             in if n < length cs' then Some (n + 2) else None)
          else None)"

definition match_String :: "string \<Rightarrow> nat option" where
  "match_String cs = first_of (match_quoted (CHR 0x27) cs) (match_quoted (CHR 0x22) cs)"

text \<open>\<^verbatim>\<open>(?P<CompareOp>!=|<=|>=|==|[()<>])\<close>\<close>

definition match_CompareOp :: "string \<Rightarrow> nat option" where
  "match_CompareOp cs =
     (if take 2 cs = ''!='' \<or> take 2 cs = ''<='' \<or> take 2 cs = ''>='' \<or> take 2 cs = ''==''
      then Some 2
      else if take 1 cs = ''('' \<or> take 1 cs = '')'' \<or> take 1 cs = ''<'' \<or> take 1 cs = ''>''
      then Some 1
      else None)"

text \<open>The alternation: the first group that matches, \<open>None\<close> for the unnamed one.\<close>

fun first_match :: "('a \<times> nat option) list \<Rightarrow> ('a \<times> nat) option" where
  "first_match [] = None"
| "first_match ((a, None) # alts) = first_match alts"
| "first_match ((a, Some n) # alts) = Some (a, n)"

definition match_token :: "string \<Rightarrow> (TokenType option \<times> nat) option" where
  "match_token cs =
     first_match
       [(None, match_space cs),
        (Some T_LogicOp, match_LogicOp cs),
        (Some T_Boolean, match_Boolean cs),
        (Some T_Ident, match_Ident cs),
        (Some T_Number, match_Number cs),
        (Some T_String, match_String cs),
        (Some T_CompareOp, match_CompareOp cs)]"

text \<open>
  The token loop: \<open>None\<close> when some position has no match. Every group matches at least
  one byte, which is why the loop ends.
\<close>

lemma match_fold_pos: "match_fold p cs = Some n \<Longrightarrow> p \<noteq> [] \<Longrightarrow> 0 < n"
  by (cases p; cases cs) (auto split: if_splits)

lemma first_of_pos:
  "first_of a b = Some n \<Longrightarrow> (\<And>k. a = Some k \<Longrightarrow> 0 < k) \<Longrightarrow> (\<And>k. b = Some k \<Longrightarrow> 0 < k)
    \<Longrightarrow> 0 < n"
  by (cases a) (auto simp: first_of_def)

lemma match_space_pos: "match_space cs = Some n \<Longrightarrow> 0 < n"
  by (auto simp: match_space_def Let_def split: if_splits)

lemma match_LogicOp_pos: "match_LogicOp cs = Some n \<Longrightarrow> 0 < n"
  unfolding match_LogicOp_def by (erule first_of_pos) (auto dest: match_fold_pos)

lemma match_Boolean_pos: "match_Boolean cs = Some n \<Longrightarrow> 0 < n"
  unfolding match_Boolean_def by (erule first_of_pos) (auto dest: match_fold_pos)

lemma match_Ident_pos: "match_Ident cs = Some n \<Longrightarrow> 0 < n"
  by (cases cs) (auto simp: match_Ident_def split: if_splits)

lemma match_Number_pos: "match_Number cs = Some n \<Longrightarrow> 0 < n"
  by (auto simp: match_Number_def Let_def split: if_splits)

lemma match_quoted_pos: "match_quoted q cs = Some n \<Longrightarrow> 0 < n"
  by (cases cs) (auto simp: match_quoted_def Let_def split: if_splits)

lemma match_String_pos: "match_String cs = Some n \<Longrightarrow> 0 < n"
  unfolding match_String_def by (erule first_of_pos) (auto dest: match_quoted_pos)

lemma match_CompareOp_pos: "match_CompareOp cs = Some n \<Longrightarrow> 0 < n"
  by (auto simp: match_CompareOp_def split: if_splits)

lemma first_match_mem: "first_match alts = Some (a, n) \<Longrightarrow> (a, Some n) \<in> set alts"
  by (induction alts rule: first_match.induct) auto

lemma match_token_pos:
  assumes "match_token cs = Some (ty, n)"
  shows "0 < n"
proof -
  from assms have "(ty, Some n) \<in> set
       [(None, match_space cs),
        (Some T_LogicOp, match_LogicOp cs),
        (Some T_Boolean, match_Boolean cs),
        (Some T_Ident, match_Ident cs),
        (Some T_Number, match_Number cs),
        (Some T_String, match_String cs),
        (Some T_CompareOp, match_CompareOp cs)]"
    unfolding match_token_def by (rule first_match_mem)
  then consider "match_space cs = Some n" | "match_LogicOp cs = Some n"
    | "match_Boolean cs = Some n" | "match_Ident cs = Some n" | "match_Number cs = Some n"
    | "match_String cs = Some n" | "match_CompareOp cs = Some n"
    by auto
  then show ?thesis
    by cases
      (fact match_space_pos match_LogicOp_pos match_Boolean_pos match_Ident_pos
        match_Number_pos match_String_pos match_CompareOp_pos)+
qed

function myLexer :: "Position \<Rightarrow> string \<Rightarrow> Token list option" where
  "myLexer pos cs =
     (if cs = [] then Some []
      else case match_token cs of
        None \<Rightarrow> None
      | Some (ty, n) \<Rightarrow>
          (case myLexer (pos + n) (drop n cs) of
             None \<Rightarrow> None
           | Some ts \<Rightarrow>
               (case ty of
                  None \<Rightarrow> Some ts
                | Some t \<Rightarrow> Some (Token t (take n cs) pos # ts))))"
  by pat_completeness auto
termination
  by (relation "measure (\<lambda>(pos, cs). length cs)") (auto dest: match_token_pos)

section \<open>The parser\<close>

text \<open>
  \<^verbatim>\<open>Parser\<close> is built by the participle library from the grammar written in the tags of the
  node structs, with the options \<^verbatim>\<open>Unquote("String")\<close> and
  \<^verbatim>\<open>CaseInsensitive("LogicOp", "Boolean")\<close>. Two functions of the libraries are parameters
  here: \<^verbatim>\<open>strconv.ParseFloat\<close>, which reads the text of a \<^verbatim>\<open>Number\<close> token, and the unquoting
  of the text of a \<^verbatim>\<open>String\<close> token; both may fail.
\<close>

record library =
  ParseFloat :: "string \<Rightarrow> float64 option"
  unquote :: "string \<Rightarrow> string option"

fun unquote_tokens :: "library \<Rightarrow> Token list \<Rightarrow> Token list option" where
  "unquote_tokens lib [] = Some []"
| "unquote_tokens lib (Token ty v pos # ts) =
     (if ty = T_String then
        (case unquote lib v of
           None \<Rightarrow> None
         | Some v' \<Rightarrow> map_option ((#) (Token ty v' pos)) (unquote_tokens lib ts))
      else map_option ((#) (Token ty v pos)) (unquote_tokens lib ts))"

text \<open>\<^verbatim>\<open>Boolean.Capture\<close>, on the text of the one token it is given.\<close>

definition Boolean_Capture :: "string \<Rightarrow> bool" where
  "Boolean_Capture v = (strings_ToLower v = ''true'')"

text \<open>
  A quoted literal of the grammar matches a token by its text, whatever its type; for a
  token of a case-insensitive type the two texts are compared in lower case.
\<close>

fun literal :: "string \<Rightarrow> Token \<Rightarrow> bool" where
  "literal l (Token ty v pos) =
     (if ty = T_LogicOp \<or> ty = T_Boolean then strings_ToLower v = strings_ToLower l
      else v = l)"

definition compare_literals :: "string list" where
  "compare_literals = [''<='', ''>='', ''=='', ''<'', ''>'', ''!='']"

text \<open>
  The result of parsing one node at the head of the tokens: the node and the number of
  tokens it took, or no match with nothing taken, or an error. A node takes the position
  of its first token.
\<close>

datatype 'a parsed = Matched 'a nat | NoMatch | SyntaxError

text \<open>
  \<^verbatim>\<open>Value\<close>: \<^verbatim>\<open>(  @Number | @String | @Boolean )\<close>
\<close>

fun parse_Value :: "library \<Rightarrow> Token list \<Rightarrow> Value parsed" where
  "parse_Value lib [] = NoMatch"
| "parse_Value lib (Token ty v pos # ts) =
     (if ty = T_Number then
        (case ParseFloat lib v of
           Some f \<Rightarrow> Matched (Value pos (Some f) None None) 1
         | None \<Rightarrow> SyntaxError)
      else if ty = T_String then Matched (Value pos None (Some v) None) 1
      else if ty = T_Boolean then Matched (Value pos None None (Some (Boolean_Capture v))) 1
      else NoMatch)"

text \<open>
  The recursive rules, each from the tag of its struct:
  \<^verbatim>\<open>Term\<close> is \<^verbatim>\<open>@@ | @Ident | "(" @@ ")"\<close>;
  \<^verbatim>\<open>Compare\<close> is \<^verbatim>\<open>@( "<=" | ">=" | "==" | "<" | ">" | "!=" ) ( @@ )\<close>;
  \<^verbatim>\<open>ConditionOperand\<close> is \<^verbatim>\<open>@@ [ @@ ]\<close>;
  \<^verbatim>\<open>OrCondition\<close> is \<^verbatim>\<open>@@ { "AND" @@ }\<close>;
  \<^verbatim>\<open>Expression\<close> is \<^verbatim>\<open>@@ { "OR" @@ }\<close>.
  \<open>parse_And_rest\<close> and \<open>parse_Or_rest\<close> are the two repetitions. Once the first element
  of a sequence has matched, the rest of it must match.
\<close>

fun parse_Term :: "library \<Rightarrow> Token list \<Rightarrow> Term parsed"
  and parse_Compare :: "library \<Rightarrow> Token list \<Rightarrow> Compare parsed"
  and parse_ConditionOperand :: "library \<Rightarrow> Token list \<Rightarrow> ConditionOperand parsed"
  and parse_And_rest :: "library \<Rightarrow> Token list \<Rightarrow> (ConditionOperand list) parsed"
  and parse_OrCondition :: "library \<Rightarrow> Token list \<Rightarrow> OrCondition parsed"
  and parse_Or_rest :: "library \<Rightarrow> Token list \<Rightarrow> (OrCondition list) parsed"
  and parse_Expression :: "library \<Rightarrow> Token list \<Rightarrow> Expression parsed"
where
  "parse_Term lib [] = NoMatch"
| "parse_Term lib (t # ts) =
     (case parse_Value lib (t # ts) of
        Matched v n \<Rightarrow> Matched (Term (token_Pos t) (Some v) None None) n
      | SyntaxError \<Rightarrow> SyntaxError
      | NoMatch \<Rightarrow>
          if token_Type t = T_Ident
          then Matched (Term (token_Pos t) None (Some (token_Value t)) None) 1
          else if literal ''('' t then
            (case parse_Expression lib ts of
               Matched e n \<Rightarrow>
                 (case drop n ts of
                    [] \<Rightarrow> SyntaxError
                  | t' # ts' \<Rightarrow>
                      if literal '')'' t'
                      then Matched (Term (token_Pos t) None None (Some e)) (n + 2)
                      else SyntaxError)
             | _ \<Rightarrow> SyntaxError)
          else NoMatch)"
| "parse_Compare lib [] = NoMatch"
| "parse_Compare lib (t # ts) =
     (if list_ex (\<lambda>l. literal l t) compare_literals then
        (case parse_Term lib ts of
           Matched term n \<Rightarrow> Matched (Compare (token_Pos t) (token_Value t) term) (n + 1)
         | _ \<Rightarrow> SyntaxError)
      else NoMatch)"
| "parse_ConditionOperand lib ts =
     (case parse_Term lib ts of
        Matched term n \<Rightarrow>
          (case parse_Compare lib (drop n ts) of
             Matched c m \<Rightarrow> Matched (ConditionOperand (token_Pos (hd ts)) term (Some c)) (n + m)
           | NoMatch \<Rightarrow> Matched (ConditionOperand (token_Pos (hd ts)) term None) n
           | SyntaxError \<Rightarrow> SyntaxError)
      | NoMatch \<Rightarrow> NoMatch
      | SyntaxError \<Rightarrow> SyntaxError)"
| "parse_And_rest lib [] = Matched [] 0"
| "parse_And_rest lib (t # ts) =
     (if literal ''AND'' t then
        (case parse_ConditionOperand lib ts of
           Matched c n \<Rightarrow>
             (case parse_And_rest lib (drop n ts) of
                Matched cs m \<Rightarrow> Matched (c # cs) (1 + n + m)
              | _ \<Rightarrow> SyntaxError)
         | _ \<Rightarrow> SyntaxError)
      else Matched [] 0)"
| "parse_OrCondition lib ts =
     (case parse_ConditionOperand lib ts of
        Matched c n \<Rightarrow>
          (case parse_And_rest lib (drop n ts) of
             Matched cs m \<Rightarrow> Matched (OrCondition (token_Pos (hd ts)) (c # cs)) (n + m)
           | _ \<Rightarrow> SyntaxError)
      | NoMatch \<Rightarrow> NoMatch
      | SyntaxError \<Rightarrow> SyntaxError)"
| "parse_Or_rest lib [] = Matched [] 0"
| "parse_Or_rest lib (t # ts) =
     (if literal ''OR'' t then
        (case parse_OrCondition lib ts of
           Matched c n \<Rightarrow>
             (case parse_Or_rest lib (drop n ts) of
                Matched cs m \<Rightarrow> Matched (c # cs) (1 + n + m)
              | _ \<Rightarrow> SyntaxError)
         | _ \<Rightarrow> SyntaxError)
      else Matched [] 0)"
| "parse_Expression lib ts =
     (case parse_OrCondition lib ts of
        Matched c n \<Rightarrow>
          (case parse_Or_rest lib (drop n ts) of
             Matched cs m \<Rightarrow> Matched (Expression (token_Pos (hd ts)) (c # cs)) (n + m)
           | _ \<Rightarrow> SyntaxError)
      | NoMatch \<Rightarrow> NoMatch
      | SyntaxError \<Rightarrow> SyntaxError)"

text \<open>
  \<^verbatim>\<open>Parse\<close>: the text is tokenized, the string tokens are unquoted, and the tokens must be
  one \<^verbatim>\<open>Expression\<close> with nothing left over. \<open>None\<close> is any error of the parser.
\<close>

definition Parse :: "library \<Rightarrow> string \<Rightarrow> Expression option" where
  "Parse lib expr =
     (case myLexer 0 expr of
        None \<Rightarrow> None
      | Some raw \<Rightarrow>
          (case unquote_tokens lib raw of
             None \<Rightarrow> None
           | Some ts \<Rightarrow>
               (case parse_Expression lib ts of
                  Matched e n \<Rightarrow> if n = length ts then Some e else None
                | _ \<Rightarrow> None)))"

text \<open>\<^verbatim>\<open>Eval\<close>.\<close>

definition Eval ::
  "library \<Rightarrow> string \<Rightarrow> ('s, 'e, 'o) Gettable option \<Rightarrow> 's \<Rightarrow> ('e, 'o val) outcome \<times> 's" where
  "Eval lib expr obj s =
     (if length expr = 0 then (Return V_nil, s)
      else case Parse lib expr of
        None \<Rightarrow> (Fail ParseError, s)
      | Some e \<Rightarrow> EvalParsed e obj s)"

section \<open>Notions used in the properties\<close>

text \<open>
  The two loops have one shape: \<open>nary_loop stop\<close> leaves the loop when the running value
  is the boolean \<open>stop\<close>, and otherwise goes on with the value of the child just evaluated
  (\<open>False \<or> r\<close> and \<open>True \<and> r\<close> are both \<open>r\<close>). \<open>Expression_loop\<close> is \<open>nary_loop True\<close> and
  \<open>OrCondition_loop\<close> is \<open>nary_loop False\<close>, as proved below.
\<close>

fun nary_loop ::
  "bool \<Rightarrow> ('c \<Rightarrow> 's \<Rightarrow> ('e, 'o val) outcome \<times> 's) \<Rightarrow> Position \<Rightarrow> 'o val \<Rightarrow> 'c list \<Rightarrow> 's
    \<Rightarrow> ('e, 'o val) outcome \<times> 's" where
  "nary_loop stop ev pos lhs [] s = (Return lhs, s)"
| "nary_loop stop ev pos lhs (c # cs) s =
     (case evaluateBooleans lhs (ev c s) of
        (Panic m, s1) \<Rightarrow> (Panic m, s1)
      | (Fail err, s1) \<Rightarrow> (Fail (lexer_Errorf pos ''%v'' [Arg_error err]), s1)
      | (Return (lhsBool, rhsBool), s1) \<Rightarrow>
          if lhsBool = stop then (Return lhs, s1)
          else nary_loop stop ev pos (V_Boolean rhsBool) cs s1)"

text \<open>
  \<open>nary_eval\<close> is the first child followed by the loop: what \<^verbatim>\<open>Expression.Eval\<close> and
  \<^verbatim>\<open>OrCondition.Eval\<close> do when they have three children or more.
\<close>

fun nary_eval ::
  "bool \<Rightarrow> ('c \<Rightarrow> 's \<Rightarrow> ('e, 'o val) outcome \<times> 's) \<Rightarrow> Position \<Rightarrow> 'c list \<Rightarrow> 's
    \<Rightarrow> ('e, 'o val) outcome \<times> 's" where
  "nary_eval stop ev pos [] s = (Return V_nil, s)"
| "nary_eval stop ev pos (c # cs) s =
     (case ev c s of
        (Panic m, s1) \<Rightarrow> (Panic m, s1)
      | (Fail err, s1) \<Rightarrow> (Fail err, s1)
      | (Return lhs, s1) \<Rightarrow> nary_loop stop ev pos lhs cs s1)"

text \<open>
  \<open>all_eval_to ev v cs s\<close>: the children \<open>cs\<close>, evaluated one after the other from the
  state \<open>s\<close>, all return the value \<open>v\<close>; the result is the state the last one leaves.
\<close>

fun all_eval_to ::
  "('c \<Rightarrow> 's \<Rightarrow> ('e, 'o val) outcome \<times> 's) \<Rightarrow> 'o val \<Rightarrow> 'c list \<Rightarrow> 's \<Rightarrow> 's option" where
  "all_eval_to ev v [] s = Some s"
| "all_eval_to ev v (c # cs) s =
     (case ev c s of
        (Return w, s1) \<Rightarrow> if w = v then all_eval_to ev v cs s1 else None
      | (Fail err, s1) \<Rightarrow> None
      | (Panic m, s1) \<Rightarrow> None)"

text \<open>The variants of a value that the specification tells apart.\<close>

datatype variant = Number | Text | Boolean | NoValue | Opaque

fun variant_of :: "'o val \<Rightarrow> variant" where
  "variant_of (V_float64 x) = Number"
| "variant_of (V_string x) = Text"
| "variant_of (V_Boolean x) = Boolean"
| "variant_of V_nil = NoValue"
| "variant_of v = Opaque"

text \<open>
  The type errors of a comparison: the errors that \<^verbatim>\<open>Compare.Eval\<close> builds itself, at the
  position of the node and with its operator.
\<close>

definition compare_type_errors :: "string list" where
  "compare_type_errors =
     [''rhs of %s must be a number'', ''rhs of %s must be a string'',
      ''rhs of %s must be boolean'', ''unsupported number comparison operator %s'',
      ''unsupported string comparison operator %s'',
      ''unsupported boolean comparison operator %s'',
      ''lhs of %s must be a number, string or boolean'']"

fun is_Compare_TypeError :: "Position \<Rightarrow> string \<Rightarrow> 'e error \<Rightarrow> bool" where
  "is_Compare_TypeError pos op (lexer_Errorf p f args) =
     (p = pos \<and> f \<in> set compare_type_errors \<and> args = [Arg_string op])"
| "is_Compare_TypeError pos op e = False"

text \<open>The text of a boolean literal.\<close>

definition bool_text :: "bool \<Rightarrow> string" where
  "bool_text b = (if b then ''true'' else ''false'')"

text \<open>
  A host object for the examples: it knows the boolean \<open>a\<close>, true, and the boolean \<open>b\<close>,
  false, fails on every other name, and its state is the list of the names it was asked.
\<close>

definition logging_object :: "(string list, string, unit) Gettable" where
  "logging_object name s =
     (if name = ''a'' then (Inr (V_bool True), s @ [name])
      else if name = ''b'' then (Inr (V_bool False), s @ [name])
      else (Inl ''Invalid identifier'', s @ [name]))"

text \<open>The operand and the condition that are one identifier, for the examples.\<close>

definition name_operand :: "string \<Rightarrow> ConditionOperand" where
  "name_operand name = ConditionOperand 0 (Term 0 None (Some name) None) None"

definition name_condition :: "string \<Rightarrow> OrCondition" where
  "name_condition name = OrCondition 0 [name_operand name]"

text \<open>The operand and the condition that are one string literal.\<close>

definition string_operand :: "string \<Rightarrow> ConditionOperand" where
  "string_operand t = ConditionOperand 0 (Term 0 (Some (Value 0 None (Some t) None)) None None) None"

definition string_condition :: "string \<Rightarrow> OrCondition" where
  "string_condition t = OrCondition 0 [string_operand t]"

section \<open>Properties\<close>

subsection \<open>Short circuit with two children\<close>

text \<open>
  Claim C2. An \<open>Expression\<close> with exactly two children whose first child evaluates to the
  boolean true returns that boolean in the state the first child left: the second child
  is not evaluated, whatever it is. An \<open>OrCondition\<close> with exactly two children whose first
  child evaluates to the boolean false does the same.
\<close>

theorem short_circuit_two_children:
  "(OrCondition_Eval ctx a s = (Return (V_Boolean True), s1) \<longrightarrow>
      Expression_Eval ctx (Expression pos [a, b]) s = (Return (V_Boolean True), s1)) \<and>
   (ConditionOperand_Eval ctx c s = (Return (V_Boolean False), s1) \<longrightarrow>
      OrCondition_Eval ctx (OrCondition pos' [c, d]) s = (Return (V_Boolean False), s1))"
  by simp

text \<open>
  The instances \<^verbatim>\<open>true OR "String"\<close> and \<^verbatim>\<open>false AND height\<close> with no object: the right
  operand of the first is not boolean, the identifier of the second cannot be resolved.
\<close>

theorem short_circuit_two_children_witness:
  "Expression_Eval \<lparr>Object = None\<rparr>
     (Expression 0
        [OrCondition 0 [ConditionOperand 0 (Term 0 (Some (Value 0 None None (Some True))) None None) None],
         OrCondition 8 [ConditionOperand 8 (Term 8 (Some (Value 8 None (Some ''String'') None)) None None) None]])
     () = (Return (V_Boolean True), ()) \<and>
   OrCondition_Eval \<lparr>Object = None\<rparr>
     (OrCondition 0
        [ConditionOperand 0 (Term 0 (Some (Value 0 None None (Some False))) None None) None,
         ConditionOperand 10 (Term 10 None (Some ''height'') None) None])
     () = (Return (V_Boolean False), ())"
proof -
  have h1: "OrCondition_Eval \<lparr>Object = None\<rparr>
      (OrCondition 0 [ConditionOperand 0 (Term 0 (Some (Value 0 None None (Some True))) None None) None])
      () = (Return (V_Boolean True), ())"
    by simp
  have h2: "ConditionOperand_Eval \<lparr>Object = None\<rparr>
      (ConditionOperand 0 (Term 0 (Some (Value 0 None None (Some False))) None None) None)
      () = (Return (V_Boolean False), ())"
    by simp
  show ?thesis
    using short_circuit_two_children [THEN conjunct1, rule_format, OF h1]
      short_circuit_two_children [THEN conjunct2, rule_format, OF h2]
    by blast
qed

end
